theory Spec2Isabelle
  imports Main "HOL-Library.Sublist"
begin

section \<open>EditTableForm and SystemEnvironmentVariableSettings\<close>

text \<open>
  A shallow embedding of the two dashboard components of
  \<^verbatim>\<open>EditTableForm.tsx\<close>: the table-editing form (error slot, lazy
  initialisation of the form values, the submit handler) and the settings
  panel with its two secret-visibility flags.

  Values that the components only pass through (column types, default value
  expressions, the fields of a foreign-key relation) are strings. A nullable
  JavaScript value is an \<open>option\<close>, with \<open>None\<close> for
  \<^verbatim>\<open>null\<close>/\<^verbatim>\<open>undefined\<close>; an index of the form can
  be \<^verbatim>\<open>null\<close>, \<^verbatim>\<open>undefined\<close> or a number, which the
  submit handler tells apart.
\<close>

subsection \<open>Data model\<close>

datatype js_error = Error string

datatype js_index = Null | Undefined | Index int

text \<open>The result of \<^verbatim>\<open>normalizeDatabaseColumn\<close>, as far as the form reads it.\<close>

record data_grid_column =
  dg_id :: string
  dg_type :: string
  dg_defaultValue :: "string option"
  dg_isNullable :: bool
  dg_isUnique :: bool
  isPrimary :: bool
  isIdentity :: bool

text \<open>A column as the form holds it (the object built in \<^verbatim>\<open>form.reset\<close>).\<close>

record database_column =
  col_id :: string
  col_name :: string
  col_type :: string
  col_defaultValue :: "string option"
  col_isNullable :: bool
  col_isUnique :: bool

text \<open>
  Modelled from the spec: the type \<^verbatim>\<open>ForeignKeyRelation\<close> is declared
  outside the component; a relation is a reference from a column to a target
  schema, table and column.
\<close>

record foreign_key_relation =
  fk_columnName :: string
  fk_referencedSchema :: string
  fk_referencedTable :: string
  fk_referencedColumn :: string

text \<open>\<^verbatim>\<open>BaseTableFormValues\<close>, with the fields the component reads and writes.\<close>

record base_table_form_values =
  name :: string
  columns :: "database_column list"
  primaryKeyIndex :: js_index
  identityColumnIndex :: js_index
  foreignKeyRelations :: "foreign_key_relation list option"

text \<open>
  \<^verbatim>\<open>DatabaseTable\<close> as the submit handler builds it: the spread
  \<^verbatim>\<open>...values\<close> copies every field of the form values, and two fields
  are added.
\<close>

record database_table = base_table_form_values +
  primaryKey :: "string option"
  identityColumn :: "string option"

record normalized_query_data_row =
  table_name :: string

text \<open>
  The props of \<^verbatim>\<open>EditTableForm\<close>. The optional callback
  \<^verbatim>\<open>onSubmit\<close> is \<open>None\<close> when the caller gave none, and otherwise
  carries the outcome of awaiting it: \<open>None\<close> when its promise resolves,
  \<open>Some e\<close> when it rejects with \<open>e\<close>.
\<close>

record edit_table_form_props =
  onSubmit :: "js_error option option"
  schema :: string
  table :: normalized_query_data_row

subsection \<open>The hooks' results\<close>

datatype query_status = Idle | Loading | Success | Failed

record 'raw table_query_data =
  q_columns :: "'raw list option"
  q_foreignKeyRelations :: "foreign_key_relation list option"

text \<open>
  What a render reads from \<^verbatim>\<open>useTableQuery\<close> and from the two mutation
  hooks: the query's data, status and error, and the error of each mutation.
\<close>

record 'raw hooks =
  data :: "'raw table_query_data option"
  columnsStatus :: query_status
  columnsError :: "js_error option"
  updateError :: "js_error option"
  foreignKeyError :: "js_error option"

subsection \<open>The merged error slot and its reset\<close>

text \<open>
  JavaScript's \<^verbatim>\<open>a || b\<close> on values that are an error object or
  \<^verbatim>\<open>null\<close>: the left operand when it is truthy, the right one otherwise.
\<close>

definition js_or :: "'a option \<Rightarrow> 'a option \<Rightarrow> 'a option" where
  "js_or a b = (case a of Some e \<Rightarrow> Some e | None \<Rightarrow> b)"

text \<open>\<^verbatim>\<open>const error = columnsError || updateError || foreignKeyError\<close>\<close>

definition error :: "'raw hooks \<Rightarrow> js_error option" where
  "error h = js_or (js_or (columnsError h) (updateError h)) (foreignKeyError h)"




text \<open>
  The claim's wording of the slot: the first non-null entry of the three
  sources in the listed order, null when there is none.
\<close>

definition first_non_null :: "'a option list \<Rightarrow> 'a option" where
  "first_non_null es = (case List.find (\<lambda>e. e \<noteq> None) es of None \<Rightarrow> None | Some e \<Rightarrow> e)"

subsection \<open>What the form renders\<close>





subsection \<open>Lazy initialisation of the form\<close>

text \<open>
  \<^verbatim>\<open>Array.prototype.findIndex\<close>: the index of the first element that
  satisfies the predicate, scanning from index 0, and \<open>-1\<close> when there is
  none.
\<close>

fun findIndex_from :: "('a \<Rightarrow> bool) \<Rightarrow> int \<Rightarrow> 'a list \<Rightarrow> int" where
  "findIndex_from p i [] = - 1"
| "findIndex_from p i (x # xs) = (if p x then i else findIndex_from p (i + 1) xs)"

definition findIndex :: "('a \<Rightarrow> bool) \<Rightarrow> 'a list \<Rightarrow> int" where
  "findIndex p xs = findIndex_from p 0 xs"

text \<open>
  \<^verbatim>\<open>const { columns, foreignKeyRelations } = data || { columns: [], foreignKeyRelations: [] }\<close>
  and \<^verbatim>\<open>(columns || []).map((column) => normalizeDatabaseColumn(column))\<close>.
  The function \<^verbatim>\<open>normalizeDatabaseColumn\<close> lives outside the component and
  is a parameter.
\<close>

definition loadedForeignKeyRelations :: "'raw hooks \<Rightarrow> foreign_key_relation list option" where
  "loadedForeignKeyRelations h =
     (case data h of None \<Rightarrow> Some [] | Some d \<Rightarrow> q_foreignKeyRelations d)"

definition dataGridColumns ::
  "('raw \<Rightarrow> data_grid_column) \<Rightarrow> 'raw hooks \<Rightarrow> data_grid_column list" where
  "dataGridColumns normalizeDatabaseColumn h =
     map normalizeDatabaseColumn
       (case data h of
          None \<Rightarrow> []
        | Some d \<Rightarrow> (case q_columns d of None \<Rightarrow> [] | Some cs \<Rightarrow> cs))"

text \<open>
  The component's own state: the latch \<^verbatim>\<open>formInitialized\<close> of
  \<^verbatim>\<open>useState(false)\<close> and the current values of the form of
  \<^verbatim>\<open>useForm\<close>.
\<close>

record edit_table_form_state =
  formInitialized :: bool
  form :: base_table_form_values

definition defaultValues :: "edit_table_form_props \<Rightarrow> base_table_form_values" where
  "defaultValues props =
     \<lparr>name = table_name (table props), columns = [], primaryKeyIndex = Null,
      identityColumnIndex = Null, foreignKeyRelations = Some []\<rparr>"

definition mounted :: "edit_table_form_props \<Rightarrow> edit_table_form_state" where
  "mounted props = \<lparr>formInitialized = False, form = defaultValues props\<rparr>"

definition formColumn :: "data_grid_column \<Rightarrow> database_column" where
  "formColumn column =
     \<lparr>col_id = dg_id column, col_name = dg_id column, col_type = dg_type column,
      col_defaultValue = dg_defaultValue column, col_isNullable = dg_isNullable column,
      col_isUnique = dg_isUnique column\<rparr>"

text \<open>
  One run of the effect of \<^verbatim>\<open>useEffect\<close> after a render that read
  \<open>h\<close> from the hooks: \<^verbatim>\<open>form.reset\<close> replaces the form values and
  \<^verbatim>\<open>setFormInitialized(true)\<close> sets the latch.
\<close>

definition hydrate ::
  "('raw \<Rightarrow> data_grid_column) \<Rightarrow> edit_table_form_props \<Rightarrow> 'raw hooks \<Rightarrow>
   edit_table_form_state \<Rightarrow> edit_table_form_state" where
  "hydrate normalizeDatabaseColumn props h s =
     (let cols = dataGridColumns normalizeDatabaseColumn h in
      if columnsStatus h = Success \<and> length cols > 0 \<and> \<not> formInitialized s then
        (let primaryColumnIndex = findIndex isPrimary cols;
             identityIndex = findIndex isIdentity cols
         in s\<lparr>form :=
                 \<lparr>name = table_name (table props),
                  columns = map formColumn cols,
                  primaryKeyIndex =
                    (if primaryColumnIndex > - 1 then Index primaryColumnIndex else Null),
                  identityColumnIndex =
                    (if identityIndex > - 1 then Index identityIndex else Null),
                  foreignKeyRelations = loadedForeignKeyRelations h\<rparr>,
               formInitialized := True\<rparr>)
      else s)"

text \<open>
  What happens to a mounted form: a render whose effect runs with the hooks'
  current results, or an edit by the user that sets the form values.
\<close>

datatype 'raw event = Rendered "'raw hooks" | Edited base_table_form_values

fun step ::
  "('raw \<Rightarrow> data_grid_column) \<Rightarrow> edit_table_form_props \<Rightarrow> edit_table_form_state \<Rightarrow>
   'raw event \<Rightarrow> edit_table_form_state" where
  "step normalizeDatabaseColumn props s (Rendered h) = hydrate normalizeDatabaseColumn props h s"
| "step normalizeDatabaseColumn props s (Edited v) = s\<lparr>form := v\<rparr>"

definition run ::
  "('raw \<Rightarrow> data_grid_column) \<Rightarrow> edit_table_form_props \<Rightarrow> 'raw event list \<Rightarrow>
   edit_table_form_state \<Rightarrow> edit_table_form_state" where
  "run normalizeDatabaseColumn props evs s = foldl (step normalizeDatabaseColumn props) s evs"

subsection \<open>The submit handler\<close>

text \<open>
  \<^verbatim>\<open>xs[i]\<close> on an array: the element when \<open>i\<close> is an index of the
  array, \<^verbatim>\<open>undefined\<close> otherwise (also for \<^verbatim>\<open>null\<close> and
  \<^verbatim>\<open>undefined\<close>, which name no element).
\<close>

fun array_at :: "'a list \<Rightarrow> js_index \<Rightarrow> 'a option" where
  "array_at xs (Index i) = (if 0 \<le> i \<and> i < int (length xs) then Some (xs ! nat i) else None)"
| "array_at xs Null = None"
| "array_at xs Undefined = None"

text \<open>The object \<^verbatim>\<open>updatedTable\<close> of \<^verbatim>\<open>handleSubmit\<close>.\<close>

definition updatedTable :: "base_table_form_values \<Rightarrow> database_table" where
  "updatedTable values =
     base_table_form_values.extend values
       (database_table.fields
          (map_option col_name (array_at (columns values) (primaryKeyIndex values)))
          (if identityColumnIndex values \<noteq> Null \<and> identityColumnIndex values \<noteq> Undefined
           then map_option col_name (array_at (columns values) (identityColumnIndex values))
           else None))"

text \<open>
  The calls the handler makes to its collaborators, with their arguments:
  the two mutations, the caller's callback, the router and the toast.
\<close>

datatype call =
    UpdateTable normalized_query_data_row "data_grid_column list"
      "foreign_key_relation list option" database_table
  | TrackForeignKeyRelations "foreign_key_relation list" string string
  | OnSubmit
  | RouterPush string
  | TriggerToast string

record router_query =
  workspaceSlug :: string
  appSlug :: string
  dataSourceSlug :: string

text \<open>
  A piece of the handler takes the calls made so far and returns them
  extended, with \<open>Some e\<close> when it threw \<open>e\<close> (a rejected promise that is
  awaited throws).
\<close>

type_synonym action = "call list \<Rightarrow> js_error option \<times> call list"

definition perform :: "call \<Rightarrow> js_error option \<Rightarrow> action" where
  "perform c outcome calls = (outcome, calls @ [c])"

definition skip :: action where
  "skip calls = (None, calls)"

definition andThen :: "action \<Rightarrow> action \<Rightarrow> action" where
  "andThen a b calls =
     (case a calls of (Some e, calls') \<Rightarrow> (Some e, calls') | (None, calls') \<Rightarrow> b calls')"

text \<open>\<^verbatim>\<open>try { ... } catch { }\<close>: whatever the block threw is dropped.\<close>

definition tryCatch :: "action \<Rightarrow> action" where
  "tryCatch a calls = (None, snd (a calls))"

definition browserPath :: "router_query \<Rightarrow> string \<Rightarrow> string \<Rightarrow> string" where
  "browserPath query sch tbl =
     ''/'' @ workspaceSlug query @ ''/'' @ appSlug query @ ''/database/browser/'' @
     dataSourceSlug query @ ''/'' @ sch @ ''/'' @ tbl"

text \<open>
  \<^verbatim>\<open>handleSubmit\<close>. \<open>respond\<close> gives the outcome of each call to a
  mutation, the router or the toast (\<open>None\<close>: it returns or resolves,
  \<open>Some e\<close>: it throws or rejects); \<open>cols\<close> and \<open>fks\<close> are
  \<^verbatim>\<open>dataGridColumns\<close> and \<^verbatim>\<open>foreignKeyRelations\<close> of the render
  that created the handler. The result is the outcome of the handler's own
  promise and the calls it made, in order.
\<close>

definition handleSubmit ::
  "(call \<Rightarrow> js_error option) \<Rightarrow> router_query \<Rightarrow> edit_table_form_props \<Rightarrow>
   data_grid_column list \<Rightarrow> foreign_key_relation list option \<Rightarrow>
   base_table_form_values \<Rightarrow> js_error option \<times> call list" where
  "handleSubmit respond query props cols fks values =
     (let updated = updatedTable values;
          update = UpdateTable (table props) cols fks updated
      in tryCatch
           (andThen (perform update (respond update))
           (andThen
              (case foreignKeyRelations updated of
                 None \<Rightarrow> skip
               | Some rels \<Rightarrow>
                   if length rels > 0 then
                     (let track = TrackForeignKeyRelations rels (schema props) (name updated)
                      in perform track (respond track))
                   else skip)
           (andThen
              (case onSubmit props of
                 None \<Rightarrow> skip
               | Some outcome \<Rightarrow> perform OnSubmit outcome)
           (andThen
              (if table_name (table props) \<noteq> name updated then
                 (let push = RouterPush (browserPath query (schema props) (name updated))
                  in perform push (respond push))
               else skip)
              (let toast = TriggerToast ''The table has been updated successfully.''
               in perform toast (respond toast))))))
         [])"

fun is_track :: "call \<Rightarrow> bool" where
  "is_track (TrackForeignKeyRelations rels sch tbl) = True"
| "is_track c = False"

fun is_push :: "call \<Rightarrow> bool" where
  "is_push (RouterPush path) = True"
| "is_push c = False"

subsection \<open>The secret visibility flags of the settings panel\<close>

record settings_state =
  showAdminSecret :: bool
  showWebhookSecret :: bool

definition settings_mounted :: settings_state where
  "settings_mounted = \<lparr>showAdminSecret = False, showWebhookSecret = False\<rparr>"

text \<open>
  The two \<^verbatim>\<open>onClick\<close> handlers:
  \<^verbatim>\<open>setShowAdminSecret((show) => !show)\<close> and
  \<^verbatim>\<open>setShowWebhookSecret((show) => !show)\<close>. Each only sets its state.
\<close>

definition toggleAdminSecret :: "settings_state \<Rightarrow> settings_state" where
  "toggleAdminSecret s = s\<lparr>showAdminSecret := \<not> showAdminSecret s\<rparr>"

definition toggleWebhookSecret :: "settings_state \<Rightarrow> settings_state" where
  "toggleWebhookSecret s = s\<lparr>showWebhookSecret := \<not> showWebhookSecret s\<rparr>"

text \<open>
  What is rendered in the value cell: the secret inside
  \<^verbatim>\<open>InlineCode\<close>, or the mask, 31 times the character U+25CF (three bytes
  in UTF-8).
\<close>

datatype text_node = Plain string | InlineCode "string option"

definition mask :: string where
  "mask = concat (replicate 31 [CHR 0xE2, CHR 0x97, CHR 0x8F])"

definition adminSecretText :: "string option \<Rightarrow> settings_state \<Rightarrow> text_node" where
  "adminSecretText hasuraGraphqlAdminSecret s =
     (if showAdminSecret s then InlineCode hasuraGraphqlAdminSecret else Plain mask)"

definition webhookSecretText :: "string option \<Rightarrow> settings_state \<Rightarrow> text_node" where
  "webhookSecretText webhookSecret s =
     (if showWebhookSecret s then InlineCode webhookSecret else Plain mask)"

text \<open>
  What a handler of the settings panel can ask of the outside: the query for
  the injected variables (the only network request of the panel) and the
  alert dialog.
\<close>

datatype settings_call =
    GetAppInjectedVariablesQuery "string option"
  | OpenAlertDialog string "string option"

text \<open>
  The \<^verbatim>\<open>onClick\<close> handlers of the two icon buttons, with the new state
  and the calls they make, and for comparison \<^verbatim>\<open>showJwtSecret\<close>, which
  opens the dialog with the secret that was already fetched.
\<close>

definition onClickAdminSecret :: "settings_state \<Rightarrow> settings_state \<times> settings_call list" where
  "onClickAdminSecret s = (toggleAdminSecret s, [])"

definition onClickWebhookSecret :: "settings_state \<Rightarrow> settings_state \<times> settings_call list" where
  "onClickWebhookSecret s = (toggleWebhookSecret s, [])"

definition showJwtSecret ::
  "string option \<Rightarrow> settings_state \<Rightarrow> settings_state \<times> settings_call list" where
  "showJwtSecret hasuraGraphqlJwtSecret s =
     (s, [OpenAlertDialog ''Auth JWT Secret'' hasuraGraphqlJwtSecret])"

subsection \<open>Sample inputs\<close>

text \<open>
  A table \<open>books\<close> with three columns, of which the second is the first
  primary and the identity column, one foreign-key relation, and a form in
  which the user renamed the table to \<open>novels\<close>. The raw columns are
  already normalized, so the normalizing function is the identity.
\<close>

definition sample_column :: "string \<Rightarrow> bool \<Rightarrow> bool \<Rightarrow> data_grid_column" where
  "sample_column i p g =
     \<lparr>dg_id = i, dg_type = ''text'', dg_defaultValue = None, dg_isNullable = False,
      dg_isUnique = False, isPrimary = p, isIdentity = g\<rparr>"

definition sample_columns :: "data_grid_column list" where
  "sample_columns =
     [sample_column ''title'' False False, sample_column ''id'' True True,
      sample_column ''isbn'' True False]"

definition sample_relation :: foreign_key_relation where
  "sample_relation =
     \<lparr>fk_columnName = ''title'', fk_referencedSchema = ''public'',
      fk_referencedTable = ''titles'', fk_referencedColumn = ''id''\<rparr>"

definition sample_hooks :: "data_grid_column list \<Rightarrow> data_grid_column hooks" where
  "sample_hooks cs =
     \<lparr>data = Some \<lparr>q_columns = Some cs, q_foreignKeyRelations = Some [sample_relation]\<rparr>,
      columnsStatus = Success, columnsError = None, updateError = None,
      foreignKeyError = None\<rparr>"

definition sample_props :: edit_table_form_props where
  "sample_props = \<lparr>onSubmit = Some None, schema = ''public'', table = \<lparr>table_name = ''books''\<rparr>\<rparr>"

definition sample_values :: base_table_form_values where
  "sample_values =
     \<lparr>name = ''novels'', columns = map formColumn sample_columns, primaryKeyIndex = Index 1,
      identityColumnIndex = Index 1, foreignKeyRelations = Some [sample_relation]\<rparr>"

definition sample_query :: router_query where
  "sample_query = \<lparr>workspaceSlug = ''w'', appSlug = ''a'', dataSourceSlug = ''default''\<rparr>"

text \<open>Collaborators: one whose update mutation rejects, one where every call succeeds.\<close>

fun update_fails :: "call \<Rightarrow> js_error option" where
  "update_fails (UpdateTable t cs fks u) = Some (Error ''update failed'')"
| "update_fails c = None"

definition all_succeed :: "call \<Rightarrow> js_error option" where
  "all_succeed c = None"


section \<open>Properties\<close>

subsection \<open>Auxiliary facts\<close>



lemma formInitialized_hydrate_id:
  "formInitialized s \<Longrightarrow> hydrate n props h s = s"
  by (simp add: hydrate_def Let_def)

lemma formInitialized_step:
  "formInitialized s \<Longrightarrow> formInitialized (step n props s ev)"
  by (cases ev) (simp_all add: formInitialized_hydrate_id)

lemma formInitialized_foldl:
  "formInitialized s \<Longrightarrow> formInitialized (foldl (step n props) s evs)"
  by (induction evs arbitrary: s) (simp_all add: formInitialized_step)

lemma formInitialized_run:
  "formInitialized s \<Longrightarrow> formInitialized (run n props evs s)"
  by (simp add: run_def formInitialized_foldl)

lemma hydrate_sets_latch:
  "columnsStatus h = Success \<Longrightarrow> dataGridColumns n h \<noteq> [] \<Longrightarrow> formInitialized (hydrate n props h s)"
  by (cases "formInitialized s") (simp_all add: hydrate_def Let_def)

lemma findIndex_from_none:
  "\<forall>x \<in> set xs. \<not> p x \<Longrightarrow> findIndex_from p k xs = - 1"
  by (induction xs arbitrary: k) simp_all

lemma findIndex_from_first:
  "i < length xs \<Longrightarrow> p (xs ! i) \<Longrightarrow> \<forall>j < i. \<not> p (xs ! j) \<Longrightarrow>
   findIndex_from p k xs = k + int i"
proof (induction xs arbitrary: i k)
  case Nil
  then show ?case by simp
next
  case (Cons x xs)
  show ?case
  proof (cases i)
    case 0
    with Cons.prems show ?thesis by simp
  next
    case (Suc m)
    with Cons.prems have "\<not> p x" by auto
    moreover have "findIndex_from p (k + 1) xs = (k + 1) + int m"
      using Cons.prems Suc by (intro Cons.IH) auto
    ultimately show ?thesis using Suc by simp
  qed
qed

lemma updatedTable_base [simp]:
  "name (updatedTable values) = name values"
  "columns (updatedTable values) = columns values"
  "primaryKeyIndex (updatedTable values) = primaryKeyIndex values"
  "identityColumnIndex (updatedTable values) = identityColumnIndex values"
  "foreignKeyRelations (updatedTable values) = foreignKeyRelations values"
  by (simp_all add: updatedTable_def base_table_form_values.defs database_table.defs)

lemma updatedTable_truncate:
  "base_table_form_values.truncate (updatedTable values) = values"
  by (simp add: updatedTable_def base_table_form_values.defs database_table.defs)

lemma updatedTable_primaryKey:
  "primaryKey (updatedTable values) = map_option col_name (array_at (columns values) (primaryKeyIndex values))"
  by (simp add: updatedTable_def base_table_form_values.defs database_table.defs)

lemma updatedTable_identityColumn:
  "identityColumn (updatedTable values) = map_option col_name (array_at (columns values) (identityColumnIndex values))"
  by (cases "identityColumnIndex values") (simp_all add: updatedTable_def base_table_form_values.defs database_table.defs)

lemmas handler_defs = handleSubmit_def Let_def tryCatch_def andThen_def perform_def skip_def

lemma handleSubmit_first_call:
  "\<exists>rest. snd (handleSubmit respond query props cols fks values) =
     UpdateTable (table props) cols fks (updatedTable values) # rest"
  by (simp add: handleSubmit_def Let_def tryCatch_def andThen_def perform_def skip_def
      split: option.splits prod.splits)

subsection \<open>The error slot\<close>



text \<open>
  C7: the merged error slot is the first non-null of the metadata-load error,
  the update-mutation error and the foreign-key-tracking error, in this order.
\<close>

theorem error_first_non_null:
  "error h = first_non_null [columnsError h, updateError h, foreignKeyError h]"
  by (simp add: error_def js_or_def first_non_null_def split: option.splits)

subsection \<open>Lazy initialisation\<close>

text \<open>
  C3: the form is filled from the loaded metadata at most once per mount. The
  first run of the effect after a successful load with a non-empty column
  list sets the latch; from then on, after any sequence of renders and user
  edits, a run of the effect with any results of the hooks (a second
  successful load among them) leaves the state, and so the form values,
  unchanged.
\<close>

theorem hydrate_at_most_once:
  assumes "columnsStatus h = Success" and "dataGridColumns n h \<noteq> []"
    and "\<not> formInitialized s"
  shows "formInitialized (hydrate n props h s) \<and>
    (\<forall>evs h'. hydrate n props h' (run n props evs (hydrate n props h s)) =
       run n props evs (hydrate n props h s))"
  using assms by (simp add: hydrate_sets_latch formInitialized_run formInitialized_hydrate_id)

theorem hydrate_at_most_once_witness:
  "columnsStatus (sample_hooks sample_columns) = Success \<and>
   dataGridColumns (\<lambda>c. c) (sample_hooks sample_columns) \<noteq> [] \<and>
   \<not> formInitialized (mounted sample_props) \<and>
   formInitialized (hydrate (\<lambda>c. c) sample_props (sample_hooks sample_columns)
      (mounted sample_props)) \<and>
   hydrate (\<lambda>c. c) sample_props (sample_hooks [sample_column ''other'' True True])
     (run (\<lambda>c. c) sample_props [Edited sample_values]
        (hydrate (\<lambda>c. c) sample_props (sample_hooks sample_columns) (mounted sample_props))) =
     run (\<lambda>c. c) sample_props [Edited sample_values]
        (hydrate (\<lambda>c. c) sample_props (sample_hooks sample_columns) (mounted sample_props))"
proof -
  have loaded: "columnsStatus (sample_hooks sample_columns) = Success"
    by (simp add: sample_hooks_def)
  have nonempty: "dataGridColumns (\<lambda>c. c) (sample_hooks sample_columns) \<noteq> []"
    by (simp add: dataGridColumns_def sample_hooks_def sample_columns_def)
  have fresh: "\<not> formInitialized (mounted sample_props)"
    by (simp add: mounted_def)
  from hydrate_at_most_once [OF loaded nonempty fresh, of sample_props] loaded nonempty fresh
  show ?thesis by blast
qed

text \<open>
  C4: on the first successful load with a non-empty normalized column list,
  \<^verbatim>\<open>primaryKeyIndex\<close> of the form is the position of the first column
  flagged primary and \<^verbatim>\<open>identityColumnIndex\<close> the position of the first
  column flagged identity; with no column flagged, the index is null.
\<close>

theorem hydrate_indices:
  assumes "columnsStatus h = Success" and "dataGridColumns n h \<noteq> []"
    and "\<not> formInitialized s"
  shows
    "((\<forall>c \<in> set (dataGridColumns n h). \<not> isPrimary c) \<longrightarrow>
        primaryKeyIndex (form (hydrate n props h s)) = Null) \<and>
     (\<forall>i < length (dataGridColumns n h).
        isPrimary (dataGridColumns n h ! i) \<and> (\<forall>j < i. \<not> isPrimary (dataGridColumns n h ! j)) \<longrightarrow>
        primaryKeyIndex (form (hydrate n props h s)) = Index (int i)) \<and>
     ((\<forall>c \<in> set (dataGridColumns n h). \<not> isIdentity c) \<longrightarrow>
        identityColumnIndex (form (hydrate n props h s)) = Null) \<and>
     (\<forall>i < length (dataGridColumns n h).
        isIdentity (dataGridColumns n h ! i) \<and> (\<forall>j < i. \<not> isIdentity (dataGridColumns n h ! j)) \<longrightarrow>
        identityColumnIndex (form (hydrate n props h s)) = Index (int i))"
  using assms
  by (simp add: hydrate_def Let_def findIndex_def findIndex_from_none findIndex_from_first)

theorem hydrate_indices_witness:
  "columnsStatus (sample_hooks sample_columns) = Success \<and>
   dataGridColumns (\<lambda>c. c) (sample_hooks sample_columns) \<noteq> [] \<and>
   \<not> formInitialized (mounted sample_props) \<and>
   primaryKeyIndex (form (hydrate (\<lambda>c. c) sample_props (sample_hooks sample_columns)
      (mounted sample_props))) = Index 1 \<and>
   identityColumnIndex (form (hydrate (\<lambda>c. c) sample_props (sample_hooks sample_columns)
      (mounted sample_props))) = Index 1 \<and>
   primaryKeyIndex (form (hydrate (\<lambda>c. c) sample_props
      (sample_hooks [sample_column ''title'' False False]) (mounted sample_props))) = Null \<and>
   identityColumnIndex (form (hydrate (\<lambda>c. c) sample_props
      (sample_hooks [sample_column ''title'' False False]) (mounted sample_props))) = Null"
proof -
  have loaded: "columnsStatus (sample_hooks cs) = Success" for cs
    by (simp add: sample_hooks_def)
  have cols: "dataGridColumns (\<lambda>c. c) (sample_hooks cs) = cs" for cs
    by (simp add: dataGridColumns_def sample_hooks_def)
  have nonempty: "dataGridColumns (\<lambda>c. c) (sample_hooks sample_columns) \<noteq> []"
    "dataGridColumns (\<lambda>c. c) (sample_hooks [sample_column ''title'' False False]) \<noteq> []"
    by (simp_all add: cols sample_columns_def)
  have fresh: "\<not> formInitialized (mounted sample_props)"
    by (simp add: mounted_def)
  have second: "isPrimary (sample_columns ! 1) \<and> (\<forall>j < 1. \<not> isPrimary (sample_columns ! j))"
    "isIdentity (sample_columns ! 1) \<and> (\<forall>j < 1. \<not> isIdentity (sample_columns ! j))"
    by (simp_all add: sample_columns_def sample_column_def)
  have len: "1 < length sample_columns"
    by (simp add: sample_columns_def)
  have none: "\<forall>c \<in> set [sample_column ''title'' False False]. \<not> isPrimary c"
    "\<forall>c \<in> set [sample_column ''title'' False False]. \<not> isIdentity c"
    by (simp_all add: sample_column_def)
  from hydrate_indices [OF loaded nonempty(1) fresh, of sample_props] second len
  have "primaryKeyIndex (form (hydrate (\<lambda>c. c) sample_props (sample_hooks sample_columns)
      (mounted sample_props))) = Index 1 \<and>
    identityColumnIndex (form (hydrate (\<lambda>c. c) sample_props (sample_hooks sample_columns)
      (mounted sample_props))) = Index 1"
    unfolding cols by (metis int_ops(2))
  moreover from hydrate_indices [OF loaded nonempty(2) fresh, of sample_props] none
  have "primaryKeyIndex (form (hydrate (\<lambda>c. c) sample_props
      (sample_hooks [sample_column ''title'' False False]) (mounted sample_props))) = Null \<and>
    identityColumnIndex (form (hydrate (\<lambda>c. c) sample_props
      (sample_hooks [sample_column ''title'' False False]) (mounted sample_props))) = Null"
    unfolding cols by blast
  ultimately show ?thesis using loaded nonempty fresh by simp
qed

subsection \<open>The submit handler\<close>

text \<open>
  C2: when the table-update mutation fails, the update mutation is the only
  call the handler makes (no foreign-key tracking, no completion callback, no
  navigation, no success notification), and the handler itself does not
  throw: the exception is swallowed.
\<close>

theorem update_failure_stops_handler:
  assumes "respond (UpdateTable (table props) cols fks (updatedTable values)) = Some e"
  shows "handleSubmit respond query props cols fks values =
    (None, [UpdateTable (table props) cols fks (updatedTable values)])"
  using assms by (simp add: handler_defs)

theorem update_failure_stops_handler_witness:
  "update_fails (UpdateTable (table sample_props) sample_columns (Some [sample_relation])
      (updatedTable sample_values)) = Some (Error ''update failed'') \<and>
   handleSubmit update_fails sample_query sample_props sample_columns (Some [sample_relation])
      sample_values =
     (None, [UpdateTable (table sample_props) sample_columns (Some [sample_relation])
        (updatedTable sample_values)])"
proof -
  have failed: "update_fails (UpdateTable (table sample_props) sample_columns
      (Some [sample_relation]) (updatedTable sample_values)) = Some (Error ''update failed'')"
    by simp
  from update_failure_stops_handler
    [of update_fails sample_props sample_columns "Some [sample_relation]" sample_values _
       sample_query, OF failed] failed
  show ?thesis by simp
qed

text \<open>
  C5: with an empty (or absent) set of foreign-key relations the tracking
  mutation is not invoked; with one or more relations, after a successful
  update mutation, it is invoked exactly once, with the relations, the schema
  and the name of the updated table.
\<close>

theorem track_only_with_relations:
  "(foreignKeyRelations values = None \<or> foreignKeyRelations values = Some [] \<longrightarrow>
      filter is_track (snd (handleSubmit respond query props cols fks values)) = []) \<and>
   (\<forall>rels. foreignKeyRelations values = Some rels \<and> rels \<noteq> [] \<and>
      respond (UpdateTable (table props) cols fks (updatedTable values)) = None \<longrightarrow>
      filter is_track (snd (handleSubmit respond query props cols fks values)) =
        [TrackForeignKeyRelations rels (schema props) (name values)])"
  by (auto simp add: handler_defs split: option.splits prod.splits)

theorem track_only_with_relations_witness:
  "foreignKeyRelations (sample_values\<lparr>foreignKeyRelations := Some []\<rparr>) = Some [] \<and>
   filter is_track (snd (handleSubmit all_succeed sample_query sample_props sample_columns
      (Some [sample_relation]) (sample_values\<lparr>foreignKeyRelations := Some []\<rparr>))) = [] \<and>
   foreignKeyRelations sample_values = Some [sample_relation] \<and>
   [sample_relation] \<noteq> [] \<and>
   all_succeed (UpdateTable (table sample_props) sample_columns (Some [sample_relation])
      (updatedTable sample_values)) = None \<and>
   filter is_track (snd (handleSubmit all_succeed sample_query sample_props sample_columns
      (Some [sample_relation]) sample_values)) =
     [TrackForeignKeyRelations [sample_relation] (schema sample_props) (name sample_values)]"
proof -
  have empty: "foreignKeyRelations (sample_values\<lparr>foreignKeyRelations := Some []\<rparr>) = Some []"
    by simp
  have some: "foreignKeyRelations sample_values = Some [sample_relation]"
    by (simp add: sample_values_def)
  have updated: "all_succeed (UpdateTable (table sample_props) sample_columns
      (Some [sample_relation]) (updatedTable sample_values)) = None"
    by (simp add: all_succeed_def)
  from track_only_with_relations
    [of "sample_values\<lparr>foreignKeyRelations := Some []\<rparr>" all_succeed sample_query
       sample_props sample_columns "Some [sample_relation]"] empty
  have "filter is_track (snd (handleSubmit all_succeed sample_query sample_props sample_columns
      (Some [sample_relation]) (sample_values\<lparr>foreignKeyRelations := Some []\<rparr>))) = []"
    by blast
  moreover from track_only_with_relations
    [of sample_values all_succeed sample_query sample_props sample_columns
       "Some [sample_relation]"] some updated
  have "filter is_track (snd (handleSubmit all_succeed sample_query sample_props sample_columns
      (Some [sample_relation]) sample_values)) =
     [TrackForeignKeyRelations [sample_relation] (schema sample_props) (name sample_values)]"
    by blast
  ultimately show ?thesis using empty some updated by simp
qed

text \<open>
  C6: when the update mutation, the tracking mutation and the completion
  callback succeed, the handler navigates exactly when the submitted name
  differs from the original table name, once, to a path that contains the
  new name; with an unchanged name, the router is not called.
\<close>

theorem navigation_iff_renamed:
  assumes "respond (UpdateTable (table props) cols fks (updatedTable values)) = None"
    and "\<forall>rels. respond (TrackForeignKeyRelations rels (schema props) (name values)) = None"
    and "onSubmit props = None \<or> onSubmit props = Some None"
  shows "filter is_push (snd (handleSubmit respond query props cols fks values)) =
      (if table_name (table props) \<noteq> name values
       then [RouterPush (browserPath query (schema props) (name values))] else []) \<and>
    sublist (name values) (browserPath query (schema props) (name values))"
proof -
  have "sublist (name values) (browserPath query (schema props) (name values))"
    unfolding browserPath_def sublist_def by (metis append.assoc append_Nil2)
  moreover have "filter is_push (snd (handleSubmit respond query props cols fks values)) =
      (if table_name (table props) \<noteq> name values
       then [RouterPush (browserPath query (schema props) (name values))] else [])"
    using assms by (auto simp add: handler_defs split: option.splits prod.splits)
  ultimately show ?thesis by simp
qed

theorem navigation_iff_renamed_witness:
  "all_succeed (UpdateTable (table sample_props) sample_columns (Some [sample_relation])
      (updatedTable sample_values)) = None \<and>
   onSubmit sample_props = Some None \<and>
   table_name (table sample_props) \<noteq> name sample_values \<and>
   filter is_push (snd (handleSubmit all_succeed sample_query sample_props sample_columns
      (Some [sample_relation]) sample_values)) =
     [RouterPush ''/w/a/database/browser/default/public/novels''] \<and>
   filter is_push (snd (handleSubmit all_succeed sample_query sample_props sample_columns
      (Some [sample_relation]) (sample_values\<lparr>name := ''books''\<rparr>))) = []"
proof -
  have updated: "all_succeed (UpdateTable (table sample_props) sample_columns
      (Some [sample_relation]) (updatedTable v)) = None" for v
    by (simp add: all_succeed_def)
  have tracked: "\<forall>rels. all_succeed (TrackForeignKeyRelations rels (schema sample_props)
      (name v)) = None" for v
    by (simp add: all_succeed_def)
  have called: "onSubmit sample_props = None \<or> onSubmit sample_props = Some None"
    by (simp add: sample_props_def)
  have renamed: "table_name (table sample_props) \<noteq> name sample_values"
    by (simp add: sample_props_def sample_values_def)
  have same: "table_name (table sample_props) = name (sample_values\<lparr>name := ''books''\<rparr>)"
    by (simp add: sample_props_def)
  have path: "browserPath sample_query (schema sample_props) (name sample_values) =
      ''/w/a/database/browser/default/public/novels''"
    by (simp add: browserPath_def sample_query_def sample_props_def sample_values_def)
  from navigation_iff_renamed
    [of all_succeed sample_props sample_columns "Some [sample_relation]" sample_values
       sample_query, OF updated tracked called] renamed path
  have "filter is_push (snd (handleSubmit all_succeed sample_query sample_props sample_columns
      (Some [sample_relation]) sample_values)) =
     [RouterPush ''/w/a/database/browser/default/public/novels'']"
    by simp
  moreover from navigation_iff_renamed
    [of all_succeed sample_props sample_columns "Some [sample_relation]"
       "sample_values\<lparr>name := ''books''\<rparr>" sample_query, OF updated tracked called] same
  have "filter is_push (snd (handleSubmit all_succeed sample_query sample_props sample_columns
      (Some [sample_relation]) (sample_values\<lparr>name := ''books''\<rparr>))) = []"
    by simp
  ultimately show ?thesis using updated renamed by (simp add: sample_props_def)
qed

text \<open>
  C8: the table sent to the update mutation carries the primary key and the
  identity column as column names taken at the form's indices: the name of
  the column at \<^verbatim>\<open>primaryKeyIndex\<close>, and the name of the column at
  \<^verbatim>\<open>identityColumnIndex\<close>, absent when that index is null or undefined.
  Its other fields are the form values, and it is the argument of the first
  call the handler makes.
\<close>

theorem updatedTable_names:
  "(\<forall>i. primaryKeyIndex values = Index i \<and> 0 \<le> i \<and> i < int (length (columns values)) \<longrightarrow>
      primaryKey (updatedTable values) = Some (col_name (columns values ! nat i))) \<and>
   (\<forall>i. identityColumnIndex values = Index i \<and> 0 \<le> i \<and> i < int (length (columns values)) \<longrightarrow>
      identityColumn (updatedTable values) = Some (col_name (columns values ! nat i))) \<and>
   (identityColumnIndex values = Null \<or> identityColumnIndex values = Undefined \<longrightarrow>
      identityColumn (updatedTable values) = None) \<and>
   base_table_form_values.truncate (updatedTable values) = values \<and>
   (\<exists>rest. snd (handleSubmit respond query props cols fks values) =
      UpdateTable (table props) cols fks (updatedTable values) # rest)"
  using handleSubmit_first_call [of respond query props cols fks "values"]
  by (auto simp add: updatedTable_primaryKey updatedTable_identityColumn updatedTable_truncate)

theorem updatedTable_names_witness:
  "primaryKeyIndex sample_values = Index 1 \<and>
   identityColumnIndex sample_values = Index 1 \<and>
   (1::int) < int (length (columns sample_values)) \<and>
   primaryKey (updatedTable sample_values) = Some ''id'' \<and>
   identityColumn (updatedTable sample_values) = Some ''id'' \<and>
   identityColumnIndex (sample_values\<lparr>identityColumnIndex := Null\<rparr>) = Null \<and>
   identityColumn (updatedTable (sample_values\<lparr>identityColumnIndex := Null\<rparr>)) = None"
proof -
  have indices: "primaryKeyIndex sample_values = Index 1"
    "identityColumnIndex sample_values = Index 1"
    by (simp_all add: sample_values_def)
  have len: "(1::int) < int (length (columns sample_values))"
    by (simp add: sample_values_def sample_columns_def)
  have second: "col_name (columns sample_values ! nat 1) = ''id''"
    by (simp add: sample_values_def sample_columns_def sample_column_def formColumn_def)
  have absent: "identityColumnIndex (sample_values\<lparr>identityColumnIndex := Null\<rparr>) = Null"
    by simp
  from updatedTable_names [of sample_values all_succeed sample_query sample_props sample_columns None]
    indices len second
  have "primaryKey (updatedTable sample_values) = Some ''id'' \<and>
    identityColumn (updatedTable sample_values) = Some ''id''"
    by simp
  moreover from updatedTable_names
    [of "sample_values\<lparr>identityColumnIndex := Null\<rparr>" all_succeed sample_query sample_props
       sample_columns None] absent
  have "identityColumn (updatedTable (sample_values\<lparr>identityColumnIndex := Null\<rparr>)) = None"
    by blast
  ultimately show ?thesis using indices len absent by simp
qed

text \<open>
  C10: deriving the updated table never fails on the index fields. A
  \<^verbatim>\<open>primaryKeyIndex\<close> that is null or outside the columns array gives an
  absent primary key, an \<^verbatim>\<open>identityColumnIndex\<close> outside the array an
  absent identity column, and the handler goes on to call the update
  mutation for every form value.
\<close>

theorem updatedTable_total:
  "(primaryKeyIndex values = Null \<or>
    (\<exists>i. primaryKeyIndex values = Index i \<and> (i < 0 \<or> int (length (columns values)) \<le> i)) \<longrightarrow>
      primaryKey (updatedTable values) = None) \<and>
   ((\<exists>i. identityColumnIndex values = Index i \<and> (i < 0 \<or> int (length (columns values)) \<le> i)) \<longrightarrow>
      identityColumn (updatedTable values) = None) \<and>
   (\<exists>rest. snd (handleSubmit respond query props cols fks values) =
      UpdateTable (table props) cols fks (updatedTable values) # rest)"
  using handleSubmit_first_call [of respond query props cols fks "values"]
  by (auto simp add: updatedTable_primaryKey updatedTable_identityColumn)

theorem updatedTable_total_witness:
  "primaryKeyIndex (sample_values\<lparr>primaryKeyIndex := Null\<rparr>) = Null \<and>
   primaryKey (updatedTable (sample_values\<lparr>primaryKeyIndex := Null\<rparr>)) = None \<and>
   primaryKeyIndex (sample_values\<lparr>primaryKeyIndex := Index 3\<rparr>) = Index 3 \<and>
   int (length (columns (sample_values\<lparr>primaryKeyIndex := Index 3\<rparr>))) \<le> 3 \<and>
   primaryKey (updatedTable (sample_values\<lparr>primaryKeyIndex := Index 3\<rparr>)) = None \<and>
   identityColumnIndex (sample_values\<lparr>identityColumnIndex := Index (- 1)\<rparr>) = Index (- 1) \<and>
   identityColumn (updatedTable (sample_values\<lparr>identityColumnIndex := Index (- 1)\<rparr>)) = None"
proof -
  have null: "primaryKeyIndex (sample_values\<lparr>primaryKeyIndex := Null\<rparr>) = Null"
    by simp
  have beyond: "primaryKeyIndex (sample_values\<lparr>primaryKeyIndex := Index 3\<rparr>) = Index 3"
    "int (length (columns (sample_values\<lparr>primaryKeyIndex := Index 3\<rparr>))) \<le> 3"
    by (simp_all add: sample_values_def sample_columns_def)
  have negative:
    "identityColumnIndex (sample_values\<lparr>identityColumnIndex := Index (- 1)\<rparr>) = Index (- 1)"
    by simp
  from updatedTable_total
    [of "sample_values\<lparr>primaryKeyIndex := Null\<rparr>" all_succeed sample_query sample_props
       sample_columns None] null
  have "primaryKey (updatedTable (sample_values\<lparr>primaryKeyIndex := Null\<rparr>)) = None"
    by blast
  moreover from updatedTable_total
    [of "sample_values\<lparr>primaryKeyIndex := Index 3\<rparr>" all_succeed sample_query sample_props
       sample_columns None] beyond
  have "primaryKey (updatedTable (sample_values\<lparr>primaryKeyIndex := Index 3\<rparr>)) = None"
    by blast
  moreover from updatedTable_total
    [of "sample_values\<lparr>identityColumnIndex := Index (- 1)\<rparr>" all_succeed sample_query
       sample_props sample_columns None] negative
  have "identityColumn (updatedTable (sample_values\<lparr>identityColumnIndex := Index (- 1)\<rparr>)) = None"
    by simp
  ultimately show ?thesis using null beyond negative by simp
qed

subsection \<open>The secret visibility flags\<close>

text \<open>
  C9: for both flags and every starting state, two clicks on the icon button
  bring the state back, so the displayed text is again what it was (the mask,
  when starting from the mounted panel). A click negates its own flag, leaves
  the other one alone and makes no call, so no network request.
\<close>

theorem toggle_twice:
  "fst (onClickAdminSecret (fst (onClickAdminSecret s))) = s \<and>
   fst (onClickWebhookSecret (fst (onClickWebhookSecret s))) = s \<and>
   showAdminSecret (fst (onClickAdminSecret s)) = (\<not> showAdminSecret s) \<and>
   showWebhookSecret (fst (onClickAdminSecret s)) = showWebhookSecret s \<and>
   showWebhookSecret (fst (onClickWebhookSecret s)) = (\<not> showWebhookSecret s) \<and>
   showAdminSecret (fst (onClickWebhookSecret s)) = showAdminSecret s \<and>
   snd (onClickAdminSecret s) = [] \<and>
   snd (onClickWebhookSecret s) = [] \<and>
   adminSecretText a (fst (onClickAdminSecret (fst (onClickAdminSecret s)))) =
     adminSecretText a s \<and>
   webhookSecretText w (fst (onClickWebhookSecret (fst (onClickWebhookSecret s)))) =
     webhookSecretText w s \<and>
   adminSecretText a (fst (onClickAdminSecret (fst (onClickAdminSecret settings_mounted)))) =
     Plain mask \<and>
   webhookSecretText w (fst (onClickWebhookSecret (fst (onClickWebhookSecret settings_mounted)))) =
     Plain mask"
  by (simp add: onClickAdminSecret_def onClickWebhookSecret_def toggleAdminSecret_def
      toggleWebhookSecret_def adminSecretText_def webhookSecretText_def settings_mounted_def)

end
